theory Spec2Isabelle
  imports Main
begin

section \<open>Python values used by the Wrike client\<close>

text \<open>
  The client of \<^verbatim>\<open>wrike.py\<close> handles the parsed JSON bodies that the HTTP layer returns and
  the records a caller hands in. A parsed body is \<^verbatim>\<open>None\<close>, a \<^verbatim>\<open>bool\<close>, an \<^verbatim>\<open>int\<close>, a
  \<^verbatim>\<open>str\<close>, a \<^verbatim>\<open>list\<close> or a \<^verbatim>\<open>dict\<close> with string keys (in insertion order, keys distinct).
  Floating-point numbers are not part of the model. A character is a code point below 256.
\<close>

datatype json =
    JNull
  | JBool bool
  | JInt int
  | JStr string
  | JArr "json list"
  | JObj "(string \<times> json) list"

text \<open>
  The hashable values, as dictionary keys. Python has \<^verbatim>\<open>True == 1\<close> and \<^verbatim>\<open>False == 0\<close> with
  equal hashes, so a \<^verbatim>\<open>bool\<close> key is the key of its integer.
\<close>

datatype pykey = KNone | KInt int | KStr string

datatype exn =
    KeyError pykey
  | TypeError
  | TransportError string

text \<open>A cache dictionary: items in insertion order, keys distinct.\<close>

type_synonym dict = "(pykey \<times> json) list"

text \<open>Truth value of an object, as \<^verbatim>\<open>if x:\<close> and \<^verbatim>\<open>not x\<close> test it.\<close>

fun truthy :: "json \<Rightarrow> bool" where
  "truthy JNull = False"
| "truthy (JBool b) = b"
| "truthy (JInt i) = (i \<noteq> 0)"
| "truthy (JStr s) = (s \<noteq> [])"
| "truthy (JArr xs) = (xs \<noteq> [])"
| "truthy (JObj kvs) = (kvs \<noteq> [])"

text \<open>
  \<^verbatim>\<open>x[k]\<close> for a string \<open>k\<close>: a dictionary finds the key or raises \<^verbatim>\<open>KeyError\<close>; a list and a
  string want integer indices, and the other values are not subscriptable: \<^verbatim>\<open>TypeError\<close>.
\<close>

fun getitem_str :: "json \<Rightarrow> string \<Rightarrow> exn + json" where
  "getitem_str (JObj kvs) k =
     (case map_of kvs k of None \<Rightarrow> Inl (KeyError (KStr k)) | Some v \<Rightarrow> Inr v)"
| "getitem_str _ k = Inl TypeError"

text \<open>Hashing a value for use as a dictionary key: lists and dictionaries are unhashable.\<close>

fun key_of :: "json \<Rightarrow> exn + pykey" where
  "key_of JNull = Inr KNone"
| "key_of (JBool b) = Inr (KInt (if b then 1 else 0))"
| "key_of (JInt i) = Inr (KInt i)"
| "key_of (JStr s) = Inr (KStr s)"
| "key_of (JArr xs) = Inl TypeError"
| "key_of (JObj kvs) = Inl TypeError"

text \<open>\<^verbatim>\<open>d[k] = v\<close>: an existing key keeps its place, a new key goes to the end.\<close>

fun dict_set :: "dict \<Rightarrow> pykey \<Rightarrow> json \<Rightarrow> dict" where
  "dict_set [] k v = [(k, v)]"
| "dict_set ((k', v') # d) k v =
     (if k' = k then (k', v) # d else (k', v') # dict_set d k v)"

text \<open>\<^verbatim>\<open>d[x]\<close> on a cache dictionary, for an arbitrary object \<open>x\<close>.\<close>

definition dict_getitem :: "dict \<Rightarrow> json \<Rightarrow> exn + json" where
  "dict_getitem d x =
     (case key_of x of
        Inl e \<Rightarrow> Inl e
      | Inr k \<Rightarrow> (case map_of d k of None \<Rightarrow> Inl (KeyError k) | Some v \<Rightarrow> Inr v))"

text \<open>\<^verbatim>\<open>d.values()\<close>.\<close>

definition dict_values :: "dict \<Rightarrow> json list" where
  "dict_values d = map snd d"

text \<open>
  \<^verbatim>\<open>for x in v\<close>: a list yields its elements, a dictionary its keys, a string its characters;
  the other values are not iterable.
\<close>

fun py_iter :: "json \<Rightarrow> exn + json list" where
  "py_iter (JArr xs) = Inr xs"
| "py_iter (JObj kvs) = Inr (map (\<lambda>kv. JStr (fst kv)) kvs)"
| "py_iter (JStr s) = Inr (map (\<lambda>c. JStr [c]) s)"
| "py_iter _ = Inl TypeError"

subsection \<open>\<^verbatim>\<open>str\<close> and \<^verbatim>\<open>repr\<close>\<close>

definition hex_digit :: "nat \<Rightarrow> char" where
  "hex_digit n = ''0123456789abcdef'' ! n"

definition hex_escape :: "nat \<Rightarrow> string" where
  "hex_escape n = [CHR 0x5C, CHR ''x'', hex_digit (n div 16), hex_digit (n mod 16)]"

text \<open>
  One character inside \<^verbatim>\<open>repr\<close> of a string written with the quote \<open>q\<close>: the quote and the
  backslash are escaped, tab, newline and carriage return have their letters, the other
  unprintable code points (below 32, 127 to 160, and 173) are written \<^verbatim>\<open>\xhh\<close>.
\<close>

definition repr_char :: "char \<Rightarrow> char \<Rightarrow> string" where
  "repr_char q c =
     (let n = (of_char c :: nat) in
      if c = q \<or> c = CHR 0x5C then [CHR 0x5C, c]
      else if c = CHR 0x09 then [CHR 0x5C, CHR ''t'']
      else if c = CHR 0x0A then [CHR 0x5C, CHR ''n'']
      else if c = CHR 0x0D then [CHR 0x5C, CHR ''r'']
      else if n < 32 \<or> n = 127 then hex_escape n
      else if n < 127 then [c]
      else if n \<le> 160 \<or> n = 173 then hex_escape n
      else [c])"

text \<open>
  \<^verbatim>\<open>repr\<close> of a string: single quotes, unless the string has a single quote and no double
  quote.
\<close>

definition repr_str :: "string \<Rightarrow> string" where
  "repr_str s =
     (let q = (if CHR 0x27 \<in> set s \<and> CHR 0x22 \<notin> set s then CHR 0x22 else CHR 0x27)
      in [q] @ concat (map (repr_char q) s) @ [q])"

fun str_nat :: "nat \<Rightarrow> string" where
  "str_nat n = (if n < 10 then [hex_digit n] else str_nat (n div 10) @ [hex_digit (n mod 10)])"

definition str_int :: "int \<Rightarrow> string" where
  "str_int i = (if i < 0 then CHR ''-'' # str_nat (nat (- i)) else str_nat (nat i))"

fun join :: "string \<Rightarrow> string list \<Rightarrow> string" where
  "join sep [] = []"
| "join sep [x] = x"
| "join sep (x # y # ys) = x @ sep @ join sep (y # ys)"

fun py_repr :: "json \<Rightarrow> string" where
  "py_repr JNull = ''None''"
| "py_repr (JBool b) = (if b then ''True'' else ''False'')"
| "py_repr (JInt i) = str_int i"
| "py_repr (JStr s) = repr_str s"
| "py_repr (JArr xs) = ''['' @ join '', '' (map py_repr xs) @ '']''"
| "py_repr (JObj kvs) =
     ''{'' @ join '', '' (map (\<lambda>(k, v). repr_str k @ '': '' @ py_repr v) kvs) @ ''}''"

text \<open>\<^verbatim>\<open>str(x)\<close>: a string is itself, every other value is its \<^verbatim>\<open>repr\<close>.\<close>

fun py_str :: "json \<Rightarrow> string" where
  "py_str (JStr s) = s"
| "py_str v = py_repr v"

section \<open>The client object and the transport\<close>

text \<open>
  One call of \<^verbatim>\<open>requests.get\<close>: the URL, the headers, the query parameters (\<^verbatim>\<open>None\<close> when the
  caller gives none; otherwise the dictionary in insertion order) and the \<^verbatim>\<open>verify\<close> flag.
\<close>

record request =
  url :: string
  req_headers :: "(string \<times> string) list"
  params :: "(string \<times> string) list option"
  verify :: bool

text \<open>
  The service is outside the program. It answers a request, given the requests the client
  sent before, with a parsed JSON body or with an exception (of \<^verbatim>\<open>requests.get\<close> or of
  \<^verbatim>\<open>response.json()\<close>).
\<close>

type_synonym transport = "request list \<Rightarrow> request \<Rightarrow> exn + json"

text \<open>
  The fields of a \<^verbatim>\<open>Wrike\<close> object. The five cache attributes \<^verbatim>\<open>_contacts\<close>, \<dots> are
  \<^verbatim>\<open>None\<close> or a dictionary. \<open>sent\<close> is not a field of the object: it records the requests
  issued so far, oldest first.
\<close>

record wrike =
  base_url :: string
  ssl_verify :: bool
  headers :: "(string \<times> string) list"
  slot_contacts :: "dict option"
  slot_custom_fields :: "dict option"
  slot_custom_statuses :: "dict option"
  slot_folders :: "dict option"
  slot_workflows :: "dict option"
  sent :: "request list"

text \<open>\<^verbatim>\<open>reinitialize\<close>: every cache attribute becomes \<^verbatim>\<open>None\<close>.\<close>

definition reinitialize :: "wrike \<Rightarrow> wrike" where
  "reinitialize s =
     s\<lparr>slot_contacts := None,
       slot_custom_fields := None,
       slot_custom_statuses := None,
       slot_folders := None,
       slot_workflows := None\<rparr>"

text \<open>\<^verbatim>\<open>__init__\<close>.\<close>

definition init :: "string \<Rightarrow> string \<Rightarrow> bool \<Rightarrow> wrike" where
  "init b perm_access_token v =
     reinitialize
       \<lparr>base_url = b,
        ssl_verify = v,
        headers = [(''Accept'', ''application/json''),
                   (''Authorization'', ''Bearer '' @ perm_access_token)],
        slot_contacts = None,
        slot_custom_fields = None,
        slot_custom_statuses = None,
        slot_folders = None,
        slot_workflows = None,
        sent = []\<rparr>"

text \<open>The request that \<^verbatim>\<open>get(path, params)\<close> builds.\<close>

definition mk_request :: "wrike \<Rightarrow> string \<Rightarrow> (string \<times> string) list option \<Rightarrow> request" where
  "mk_request s path ps =
     \<lparr>url = base_url s @ path, req_headers = headers s, params = ps, verify = ssl_verify s\<rparr>"

definition get :: "transport \<Rightarrow> wrike \<Rightarrow> string \<Rightarrow> (string \<times> string) list option
                   \<Rightarrow> (exn + json) \<times> wrike" where
  "get net s path ps =
     (let r = mk_request s path ps
      in (net (sent s) r, s\<lparr>sent := sent s @ [r]\<rparr>))"

definition query_contacts_all :: "transport \<Rightarrow> wrike \<Rightarrow> (exn + json) \<times> wrike" where
  "query_contacts_all net s = get net s ''contacts'' None"

definition query_custom_fields_all :: "transport \<Rightarrow> wrike \<Rightarrow> (exn + json) \<times> wrike" where
  "query_custom_fields_all net s = get net s ''customfields'' None"

definition query_folders_all :: "transport \<Rightarrow> wrike \<Rightarrow> (exn + json) \<times> wrike" where
  "query_folders_all net s = get net s ''folders'' None"

definition query_workflows :: "transport \<Rightarrow> wrike \<Rightarrow> (exn + json) \<times> wrike" where
  "query_workflows net s = get net s ''workflows'' None"

section \<open>The dictionary converter\<close>

text \<open>
  Modelled from the spec: \<^verbatim>\<open>convert_list_to_dict\<close> of \<^verbatim>\<open>helpers.py\<close>, which \<^verbatim>\<open>wrike.py\<close>
  imports and which is not among the source files. The spec (4.1): it builds a mapping keyed by
  each record's \<^verbatim>\<open>id\<close>, by direct indexing, so a record without an \<^verbatim>\<open>id\<close> field fails with
  a missing-key error, and of two records with one id the later wins.
\<close>

fun records_to_dict :: "json list \<Rightarrow> dict \<Rightarrow> exn + dict" where
  "records_to_dict [] d = Inr d"
| "records_to_dict (r # rs) d =
     (case getitem_str r ''id'' of
        Inl e \<Rightarrow> Inl e
      | Inr i \<Rightarrow>
          (case key_of i of
             Inl e \<Rightarrow> Inl e
           | Inr k \<Rightarrow> records_to_dict rs (dict_set d k r)))"

definition convert_list_to_dict :: "json \<Rightarrow> exn + dict" where
  "convert_list_to_dict records =
     (case py_iter records of
        Inl e \<Rightarrow> Inl e
      | Inr rs \<Rightarrow> records_to_dict rs [])"

section \<open>The cached properties\<close>

text \<open>
  Every property tests its attribute with \<^verbatim>\<open>if not self._x\<close>. \<open>cached\<close> is the dictionary the
  property serves without a fetch: the attribute's value when it is truthy. \<^verbatim>\<open>None\<close> and the
  empty dictionary are both falsy.
\<close>

fun cached :: "dict option \<Rightarrow> dict option" where
  "cached None = None"
| "cached (Some []) = None"
| "cached (Some (x # d)) = Some (x # d)"

definition contacts :: "transport \<Rightarrow> wrike \<Rightarrow> (exn + dict) \<times> wrike" where
  "contacts net s =
     (case cached (slot_contacts s) of
        Some d \<Rightarrow> (Inr d, s)
      | None \<Rightarrow>
          (case query_contacts_all net s of
             (Inl e, s1) \<Rightarrow> (Inl e, s1)
           | (Inr resp, s1) \<Rightarrow>
               (case getitem_str resp ''data'' of
                  Inl e \<Rightarrow> (Inl e, s1)
                | Inr all_contacts \<Rightarrow>
                    (case convert_list_to_dict all_contacts of
                       Inl e \<Rightarrow> (Inl e, s1)
                     | Inr d \<Rightarrow> (Inr d, s1\<lparr>slot_contacts := Some d\<rparr>)))))"

definition custom_fields :: "transport \<Rightarrow> wrike \<Rightarrow> (exn + dict) \<times> wrike" where
  "custom_fields net s =
     (case cached (slot_custom_fields s) of
        Some d \<Rightarrow> (Inr d, s)
      | None \<Rightarrow>
          (case query_custom_fields_all net s of
             (Inl e, s1) \<Rightarrow> (Inl e, s1)
           | (Inr resp, s1) \<Rightarrow>
               (case getitem_str resp ''data'' of
                  Inl e \<Rightarrow> (Inl e, s1)
                | Inr all_custom_fields \<Rightarrow>
                    (case convert_list_to_dict all_custom_fields of
                       Inl e \<Rightarrow> (Inl e, s1)
                     | Inr d \<Rightarrow> (Inr d, s1\<lparr>slot_custom_fields := Some d\<rparr>)))))"

definition folders :: "transport \<Rightarrow> wrike \<Rightarrow> (exn + dict) \<times> wrike" where
  "folders net s =
     (case cached (slot_folders s) of
        Some d \<Rightarrow> (Inr d, s)
      | None \<Rightarrow>
          (case query_folders_all net s of
             (Inl e, s1) \<Rightarrow> (Inl e, s1)
           | (Inr resp, s1) \<Rightarrow>
               (case getitem_str resp ''data'' of
                  Inl e \<Rightarrow> (Inl e, s1)
                | Inr all_folders \<Rightarrow>
                    (case convert_list_to_dict all_folders of
                       Inl e \<Rightarrow> (Inl e, s1)
                     | Inr d \<Rightarrow> (Inr d, s1\<lparr>slot_folders := Some d\<rparr>)))))"

definition workflows :: "transport \<Rightarrow> wrike \<Rightarrow> (exn + dict) \<times> wrike" where
  "workflows net s =
     (case cached (slot_workflows s) of
        Some d \<Rightarrow> (Inr d, s)
      | None \<Rightarrow>
          (case query_workflows net s of
             (Inl e, s1) \<Rightarrow> (Inl e, s1)
           | (Inr resp, s1) \<Rightarrow>
               (case getitem_str resp ''data'' of
                  Inl e \<Rightarrow> (Inl e, s1)
                | Inr wfs \<Rightarrow>
                    (case convert_list_to_dict wfs of
                       Inl e \<Rightarrow> (Inl e, s1)
                     | Inr d \<Rightarrow> (Inr d, s1\<lparr>slot_workflows := Some d\<rparr>)))))"

text \<open>
  The two loops of \<^verbatim>\<open>custom_statuses\<close>. They write into the dictionary that
  \<^verbatim>\<open>self._custom_statuses\<close> already holds, so an exception leaves the entries written so far:
  the result is the exception, if any, and the dictionary as the loop left it.
\<close>

fun store_statuses :: "json list \<Rightarrow> dict \<Rightarrow> exn option \<times> dict" where
  "store_statuses [] d = (None, d)"
| "store_statuses (custom_status # rest) d =
     (case getitem_str custom_status ''id'' of
        Inl e \<Rightarrow> (Some e, d)
      | Inr i \<Rightarrow>
          (case key_of i of
             Inl e \<Rightarrow> (Some e, d)
           | Inr k \<Rightarrow> store_statuses rest (dict_set d k custom_status)))"

fun flatten_workflows :: "json list \<Rightarrow> dict \<Rightarrow> exn option \<times> dict" where
  "flatten_workflows [] d = (None, d)"
| "flatten_workflows (workflow # rest) d =
     (case getitem_str workflow ''customStatuses'' of
        Inl e \<Rightarrow> (Some e, d)
      | Inr v \<Rightarrow>
          (case py_iter v of
             Inl e \<Rightarrow> (Some e, d)
           | Inr items \<Rightarrow>
               (case store_statuses items d of
                  (Some e, d') \<Rightarrow> (Some e, d')
                | (None, d') \<Rightarrow> flatten_workflows rest d')))"

definition custom_statuses :: "transport \<Rightarrow> wrike \<Rightarrow> (exn + dict) \<times> wrike" where
  "custom_statuses net s =
     (case cached (slot_custom_statuses s) of
        Some d \<Rightarrow> (Inr d, s)
      | None \<Rightarrow>
          (case workflows net (s\<lparr>slot_custom_statuses := Some []\<rparr>) of
             (Inl e, s1) \<Rightarrow> (Inl e, s1)
           | (Inr wdict, s1) \<Rightarrow>
               (case flatten_workflows (dict_values wdict) [] of
                  (Some e, d) \<Rightarrow> (Inl e, s1\<lparr>slot_custom_statuses := Some d\<rparr>)
                | (None, d) \<Rightarrow> (Inr d, s1\<lparr>slot_custom_statuses := Some d\<rparr>))))"

section \<open>Id conversion\<close>

datatype IdTypes = ACCOUNT | USER | FOLDER | TASK | COMMENT | ATTACHMENT | TIMELOG

fun id_value :: "IdTypes \<Rightarrow> string" where
  "id_value ACCOUNT = ''ApiV2Account''"
| "id_value USER = ''ApiV2User''"
| "id_value FOLDER = ''ApiV2Folder''"
| "id_value TASK = ''ApiV2Task''"
| "id_value COMMENT = ''ApiV2Comment''"
| "id_value ATTACHMENT = ''ApiV2Attachment''"
| "id_value TIMELOG = ''ApiV2Timelog''"

definition convert_to_id4s :: "transport \<Rightarrow> wrike \<Rightarrow> string list \<Rightarrow> IdTypes
                               \<Rightarrow> (exn + json) \<times> wrike" where
  "convert_to_id4s net s id2s idType =
     (let ps = [(''type'', id_value idType),
                (''ids'', py_str (JArr (map JStr id2s)))]
      in get net s ''ids/'' (Some ps))"

section \<open>Extract methods\<close>

text \<open>
  \<^verbatim>\<open>extract_project_value_from_folder\<close>: \<^verbatim>\<open>folder["project"][key]\<close> inside
  \<^verbatim>\<open>try\<close> / \<^verbatim>\<open>except Exception\<close>, which turns every exception of the two lookups into \<^verbatim>\<open>None\<close>.
\<close>

definition extract_project_value_from_folder :: "string \<Rightarrow> json \<Rightarrow> json" where
  "extract_project_value_from_folder key folder =
     (case getitem_str folder ''project'' of
        Inl e \<Rightarrow> JNull
      | Inr project \<Rightarrow>
          (case getitem_str project key of
             Inl e \<Rightarrow> JNull
           | Inr extract \<Rightarrow> extract))"

definition extract_project_status :: "transport \<Rightarrow> wrike \<Rightarrow> json \<Rightarrow> (exn + json) \<times> wrike" where
  "extract_project_status net s folder =
     (let status = extract_project_value_from_folder ''status'' folder;
          custom_status_id = extract_project_value_from_folder ''customStatusId'' folder
      in if py_str status = ''Custom'' \<and> truthy custom_status_id then
           (case custom_statuses net s of
              (Inl e, s1) \<Rightarrow> (Inl e, s1)
            | (Inr d, s1) \<Rightarrow>
                (case dict_getitem d custom_status_id of
                   Inl e \<Rightarrow> (Inl e, s1)
                 | Inr r \<Rightarrow>
                     (case getitem_str r ''name'' of
                        Inl e \<Rightarrow> (Inl e, s1)
                      | Inr n \<Rightarrow> (Inr n, s1))))
         else (Inr status, s))"

section \<open>Timelogs\<close>

text \<open>The \<^verbatim>\<open>params\<close> dictionary that \<^verbatim>\<open>query_timelogs\<close> builds from \<^verbatim>\<open>tracked_date\<close>.\<close>

definition timelog_params :: "string list \<Rightarrow> (string \<times> string) list" where
  "timelog_params tracked_date =
     (let ps = [(''descendants'', ''true'')]
      in if tracked_date \<noteq> [] then
           (if length tracked_date = 1 then
              ps @ [(''trackedDate'', py_str (JObj [(''equal'', JStr (tracked_date ! 0))]))]
            else if length tracked_date = 2 then
              ps @ [(''trackedDate'',
                     py_str (JObj [(''start'', JStr (tracked_date ! 0)),
                                   (''end'', JStr (tracked_date ! 1))]))]
            else ps)
         else ps)"

definition query_timelogs :: "transport \<Rightarrow> wrike \<Rightarrow> string \<Rightarrow> string list
                              \<Rightarrow> (exn + json) \<times> wrike" where
  "query_timelogs net s location tracked_date =
     get net s (location @ ''/timelogs'') (Some (timelog_params tracked_date))"

section \<open>The flattening of workflows, as the specification words it\<close>

text \<open>
  The specification describes the custom-status dictionary as the flattening of every workflow's
  embedded list of custom statuses, keyed by custom-status id. \<open>status_entries\<close> lists the
  pairs of key and record in iteration order; a later pair overrides an earlier one with the same
  key. \<open>workflow_ok\<close> holds of a workflow record whose \<^verbatim>\<open>customStatuses\<close> is a list of records
  that each have a hashable \<^verbatim>\<open>id\<close>.
\<close>

fun status_key :: "json \<Rightarrow> pykey option" where
  "status_key cs =
     (case getitem_str cs ''id'' of
        Inl e \<Rightarrow> None
      | Inr i \<Rightarrow> (case key_of i of Inl e \<Rightarrow> None | Inr k \<Rightarrow> Some k))"

definition embedded_statuses :: "json \<Rightarrow> json list" where
  "embedded_statuses w =
     (case getitem_str w ''customStatuses'' of Inr (JArr items) \<Rightarrow> items | _ \<Rightarrow> [])"

definition item_entries :: "json list \<Rightarrow> (pykey \<times> json) list" where
  "item_entries items = List.map_filter (\<lambda>cs. map_option (\<lambda>k. (k, cs)) (status_key cs)) items"

definition status_entries :: "json list \<Rightarrow> (pykey \<times> json) list" where
  "status_entries ws = concat (map (\<lambda>w. item_entries (embedded_statuses w)) ws)"

definition workflow_ok :: "json \<Rightarrow> bool" where
  "workflow_ok w =
     (case getitem_str w ''customStatuses'' of
        Inr (JArr items) \<Rightarrow> list_all (\<lambda>cs. status_key cs \<noteq> None) items
      | _ \<Rightarrow> False)"

section \<open>Folders without the project path\<close>

text \<open>
  The nested path \<^verbatim>\<open>project.<key>\<close> is missing from a folder when the folder is not a
  dictionary, has no \<^verbatim>\<open>project\<close> key, holds under \<^verbatim>\<open>project\<close> a value that is not a
  dictionary, or holds a dictionary without the key.
\<close>

definition project_path_missing :: "string \<Rightarrow> json \<Rightarrow> bool" where
  "project_path_missing key folder =
     (case folder of
        JObj kvs \<Rightarrow>
          (case map_of kvs ''project'' of
             None \<Rightarrow> True
           | Some (JObj pkvs) \<Rightarrow> map_of pkvs key = None
           | Some _ \<Rightarrow> True)
      | _ \<Rightarrow> True)"

section \<open>Example service and client\<close>

text \<open>A service that answers every request with an empty \<^verbatim>\<open>data\<close> list, and a fresh client.\<close>

definition empty_service :: transport where
  "empty_service h r = Inr (JObj [(''data'', JArr [])])"

definition demo_client :: wrike where
  "demo_client = init ''https://www.wrike.com/api/v4/'' ''token'' True"

text \<open>A service that is down: every request raises.\<close>

definition failing_service :: transport where
  "failing_service h r = Inl (TransportError ''connection refused'')"

text \<open>
  A service with two workflows. The second defines the custom status \<^verbatim>\<open>CS2\<close> again.
  \<open>workflow_dict\<close> and \<open>status_dict\<close> are the dictionaries the client builds from its answer.
\<close>

definition workflow_records :: "json list" where
  "workflow_records =
     [JObj [(''id'', JStr ''W1''),
            (''customStatuses'',
             JArr [JObj [(''id'', JStr ''CS1''), (''name'', JStr ''Blocked'')],
                   JObj [(''id'', JStr ''CS2''), (''name'', JStr ''Done'')]])],
      JObj [(''id'', JStr ''W2''),
            (''customStatuses'',
             JArr [JObj [(''id'', JStr ''CS2''), (''name'', JStr ''Completed'')]])]]"

definition workflow_service :: transport where
  "workflow_service h r = Inr (JObj [(''data'', JArr workflow_records)])"

definition workflow_dict :: dict where
  "workflow_dict = [(KStr ''W1'', workflow_records ! 0), (KStr ''W2'', workflow_records ! 1)]"

definition status_dict :: dict where
  "status_dict =
     [(KStr ''CS1'', JObj [(''id'', JStr ''CS1''), (''name'', JStr ''Blocked'')]),
      (KStr ''CS2'', JObj [(''id'', JStr ''CS2''), (''name'', JStr ''Completed'')])]"

text \<open>Folders for the status extractor, and clients whose custom-status cache is populated.\<close>

definition active_folder :: json where
  "active_folder = JObj [(''id'', JStr ''F1''), (''project'', JObj [(''status'', JStr ''Active'')])]"

definition custom_folder :: "json \<Rightarrow> json" where
  "custom_folder i =
     JObj [(''id'', JStr ''F2''),
           (''project'', JObj [(''status'', JStr ''Custom''), (''customStatusId'', i)])]"

definition client_with_statuses :: "dict \<Rightarrow> wrike" where
  "client_with_statuses d = demo_client\<lparr>slot_custom_statuses := Some d\<rparr>"

definition blank_id_statuses :: dict where
  "blank_id_statuses = [(KStr '''', JObj [(''id'', JStr ''''), (''name'', JStr ''Blocked'')])]"

definition nameless_statuses :: dict where
  "nameless_statuses = [(KStr ''CS1'', JObj [(''id'', JStr ''CS1'')])]"

text \<open>Whether a result is a raised \<^verbatim>\<open>KeyError\<close>.\<close>

fun raises_KeyError :: "exn + 'a \<Rightarrow> bool" where
  "raises_KeyError (Inl (KeyError k)) = True"
| "raises_KeyError _ = False"

section \<open>Basic facts\<close>

declare str_nat.simps [simp del]

lemma hex_digit_decimal: "k < 10 \<Longrightarrow> hex_digit k \<in> set ''0123456789''"
proof -
  assume "k < 10"
  then have "k \<in> {0, 1, 2, 3, 4, 5, 6, 7, 8, 9}" by auto
  then show ?thesis by (auto simp: hex_digit_def)
qed

lemma str_nat_digits: "set (str_nat n) \<subseteq> set ''0123456789''"
proof (induction n rule: str_nat.induct)
  case (1 n)
  show ?case
  proof (cases "n < 10")
    case True
    then show ?thesis using hex_digit_decimal [of n] by (subst str_nat.simps) simp
  next
    case False
    have "n mod 10 < 10" by simp
    then have "hex_digit (n mod 10) \<in> set ''0123456789''" by (rule hex_digit_decimal)
    with False 1 show ?thesis by (subst str_nat.simps) simp
  qed
qed

lemma str_int_not_Custom: "str_int i \<noteq> ''Custom''"
proof
  assume h: "str_int i = ''Custom''"
  show False
  proof (cases "i < 0")
    case True
    with h show False by (simp add: str_int_def)
  next
    case False
    with h have "str_nat (nat i) = ''Custom''" by (simp add: str_int_def)
    then have "CHR ''C'' \<in> set (str_nat (nat i))" by simp
    with str_nat_digits [of "nat i"] show False by auto
  qed
qed

lemma py_str_Custom: "py_str v = ''Custom'' \<longleftrightarrow> v = JStr ''Custom''"
  by (cases v) (auto simp: str_int_not_Custom)

lemma map_of_dict_set: "map_of (dict_set d k v) = (map_of d)(k \<mapsto> v)"
  by (induction d) auto

lemma dict_set_keys:
  "map fst (dict_set d k v) = (if k \<in> fst ` set d then map fst d else map fst d @ [k])"
  by (induction d) force+

lemma distinct_dict_set: "distinct (map fst d) \<Longrightarrow> distinct (map fst (dict_set d k v))"
  by (simp add: dict_set_keys)

lemma store_statuses_ok:
  "list_all (\<lambda>cs. status_key cs \<noteq> None) items \<Longrightarrow>
   \<exists>d'. store_statuses items d = (None, d')
       \<and> map_of d' = map_of d ++ map_of (rev (item_entries items))
       \<and> (distinct (map fst d) \<longrightarrow> distinct (map fst d'))"
proof (induction items arbitrary: d)
  case Nil
  then show ?case by (simp add: item_entries_def)
next
  case (Cons cs items)
  from Cons.prems obtain i k where i: "getitem_str cs ''id'' = Inr i" and k: "key_of i = Inr k"
    by (auto split: sum.splits)
  from Cons.prems have "list_all (\<lambda>cs. status_key cs \<noteq> None) items" by simp
  from Cons.IH [OF this, of "dict_set d k cs"] obtain d' where
    d': "store_statuses items (dict_set d k cs) = (None, d')"
        "map_of d' = map_of (dict_set d k cs) ++ map_of (rev (item_entries items))"
        "distinct (map fst (dict_set d k cs)) \<longrightarrow> distinct (map fst d')"
    by blast
  have e: "item_entries (cs # items) = (k, cs) # item_entries items"
    using i k by (simp add: item_entries_def)
  have "map_of d' = map_of d ++ map_of (rev (item_entries (cs # items)))"
    unfolding e d'(2) map_of_dict_set by (simp add: map_add_upd_left map_add_def fun_eq_iff split: option.splits)
  with d' i k show ?case by (auto simp: distinct_dict_set)
qed

lemma flatten_workflows_ok:
  "list_all workflow_ok ws \<Longrightarrow>
   \<exists>d'. flatten_workflows ws d = (None, d')
       \<and> map_of d' = map_of d ++ map_of (rev (status_entries ws))
       \<and> (distinct (map fst d) \<longrightarrow> distinct (map fst d'))"
proof (induction ws arbitrary: d)
  case Nil
  then show ?case by (simp add: status_entries_def)
next
  case (Cons w ws)
  from Cons.prems obtain items where
    w: "getitem_str w ''customStatuses'' = Inr (JArr items)"
    and ok: "list_all (\<lambda>cs. status_key cs \<noteq> None) items"
    by (auto simp: workflow_ok_def split: sum.splits json.splits)
  from store_statuses_ok [OF ok, of d] obtain d1 where
    d1: "store_statuses items d = (None, d1)"
        "map_of d1 = map_of d ++ map_of (rev (item_entries items))"
        "distinct (map fst d) \<longrightarrow> distinct (map fst d1)"
    by blast
  from Cons.prems have "list_all workflow_ok ws" by simp
  from Cons.IH [OF this, of d1] obtain d' where
    d': "flatten_workflows ws d1 = (None, d')"
        "map_of d' = map_of d1 ++ map_of (rev (status_entries ws))"
        "distinct (map fst d1) \<longrightarrow> distinct (map fst d')"
    by blast
  have e: "status_entries (w # ws) = item_entries items @ status_entries ws"
    using w by (simp add: status_entries_def embedded_statuses_def)
  have "map_of d' = map_of d ++ map_of (rev (status_entries (w # ws)))"
    unfolding e d'(2) d1(2) by simp
  with d' d1 w show ?case by auto
qed


lemma mk_request_slots [simp]:
  "mk_request (s\<lparr>slot_contacts := a\<rparr>) p ps = mk_request s p ps"
  "mk_request (s\<lparr>slot_custom_fields := a\<rparr>) p ps = mk_request s p ps"
  "mk_request (s\<lparr>slot_custom_statuses := a\<rparr>) p ps = mk_request s p ps"
  "mk_request (s\<lparr>slot_folders := a\<rparr>) p ps = mk_request s p ps"
  "mk_request (s\<lparr>slot_workflows := a\<rparr>) p ps = mk_request s p ps"
  "mk_request (s\<lparr>sent := l\<rparr>) p ps = mk_request s p ps"
  by (simp_all add: mk_request_def)

lemma mk_request_reinitialize [simp]: "mk_request (reinitialize s) p ps = mk_request s p ps"
  by (simp add: mk_request_def reinitialize_def)

lemma get_eq: "get net s p ps = (net (sent s) (mk_request s p ps), s\<lparr>sent := sent s @ [mk_request s p ps]\<rparr>)"
  by (simp add: get_def Let_def)

lemma contacts_miss_sent:
  "cached (slot_contacts s) = None \<Longrightarrow>
   sent (snd (contacts net s)) = sent s @ [mk_request s ''contacts'' None]"
  by (simp add: contacts_def query_contacts_all_def get_eq split: sum.splits)

lemma custom_fields_miss_sent:
  "cached (slot_custom_fields s) = None \<Longrightarrow>
   sent (snd (custom_fields net s)) = sent s @ [mk_request s ''customfields'' None]"
  by (simp add: custom_fields_def query_custom_fields_all_def get_eq split: sum.splits)

lemma folders_miss_sent:
  "cached (slot_folders s) = None \<Longrightarrow>
   sent (snd (folders net s)) = sent s @ [mk_request s ''folders'' None]"
  by (simp add: folders_def query_folders_all_def get_eq split: sum.splits)

lemma workflows_miss_sent:
  "cached (slot_workflows s) = None \<Longrightarrow>
   sent (snd (workflows net s)) = sent s @ [mk_request s ''workflows'' None]"
  by (simp add: workflows_def query_workflows_def get_eq split: sum.splits)

lemma workflows_hit: "cached (slot_workflows s) = Some d \<Longrightarrow> workflows net s = (Inr d, s)"
  by (simp add: workflows_def)

lemma workflows_sent:
  "sent (snd (workflows net s)) = sent s \<or>
   sent (snd (workflows net s)) = sent s @ [mk_request s ''workflows'' None]"
  by (cases "cached (slot_workflows s)") (simp_all add: workflows_miss_sent workflows_hit)

lemma custom_statuses_miss_sent:
  "cached (slot_custom_statuses s) = None \<Longrightarrow>
   sent (snd (custom_statuses net s)) =
   sent (snd (workflows net (s\<lparr>slot_custom_statuses := Some []\<rparr>)))"
  by (simp add: custom_statuses_def split: sum.splits prod.splits option.splits)

lemma custom_statuses_sent:
  "sent (snd (custom_statuses net s)) = sent s \<or>
   sent (snd (custom_statuses net s)) = sent s @ [mk_request s ''workflows'' None]"
proof (cases "cached (slot_custom_statuses s)")
  case None
  show ?thesis
    using workflows_sent [of net "s\<lparr>slot_custom_statuses := Some []\<rparr>"]
    by (simp add: custom_statuses_miss_sent [OF None])
next
  case (Some d)
  then show ?thesis by (simp add: custom_statuses_def)
qed

lemma extract_missing:
  "project_path_missing key folder \<Longrightarrow> extract_project_value_from_folder key folder = JNull"
proof (cases folder)
  case (JObj kvs)
  assume m: "project_path_missing key folder"
  show ?thesis
  proof (cases "map_of kvs ''project''")
    case None
    with JObj show ?thesis by (simp add: extract_project_value_from_folder_def)
  next
    case (Some p)
    with JObj m show ?thesis
      by (cases p) (simp_all add: extract_project_value_from_folder_def project_path_missing_def)
  qed
qed (simp_all add: extract_project_value_from_folder_def)

lemma cached_Some: "cached x = Some d \<longleftrightarrow> x = Some d \<and> d \<noteq> []"
  by (cases x rule: cached.cases) auto

lemma cached_None: "cached x = None \<longleftrightarrow> x = None \<or> x = Some []"
  by (cases x rule: cached.cases) auto

lemma contacts_hit: "cached (slot_contacts s) = Some d \<Longrightarrow> contacts net s = (Inr d, s)"
  by (simp add: contacts_def)

lemma custom_fields_hit:
  "cached (slot_custom_fields s) = Some d \<Longrightarrow> custom_fields net s = (Inr d, s)"
  by (simp add: custom_fields_def)

lemma folders_hit: "cached (slot_folders s) = Some d \<Longrightarrow> folders net s = (Inr d, s)"
  by (simp add: folders_def)

lemma custom_statuses_hit:
  "cached (slot_custom_statuses s) = Some d \<Longrightarrow> custom_statuses net s = (Inr d, s)"
  by (simp add: custom_statuses_def)

lemma contacts_fail:
  "cached (slot_contacts s) = None \<Longrightarrow> net (sent s) (mk_request s ''contacts'' None) = Inl e \<Longrightarrow>
   contacts net s = (Inl e, s\<lparr>sent := sent s @ [mk_request s ''contacts'' None]\<rparr>)"
  by (simp add: contacts_def query_contacts_all_def get_eq)

lemma custom_fields_fail:
  "cached (slot_custom_fields s) = None \<Longrightarrow>
   net (sent s) (mk_request s ''customfields'' None) = Inl e \<Longrightarrow>
   custom_fields net s = (Inl e, s\<lparr>sent := sent s @ [mk_request s ''customfields'' None]\<rparr>)"
  by (simp add: custom_fields_def query_custom_fields_all_def get_eq)

lemma folders_fail:
  "cached (slot_folders s) = None \<Longrightarrow> net (sent s) (mk_request s ''folders'' None) = Inl e \<Longrightarrow>
   folders net s = (Inl e, s\<lparr>sent := sent s @ [mk_request s ''folders'' None]\<rparr>)"
  by (simp add: folders_def query_folders_all_def get_eq)

lemma workflows_fail:
  "cached (slot_workflows s) = None \<Longrightarrow> net (sent s) (mk_request s ''workflows'' None) = Inl e \<Longrightarrow>
   workflows net s = (Inl e, s\<lparr>sent := sent s @ [mk_request s ''workflows'' None]\<rparr>)"
  by (simp add: workflows_def query_workflows_def get_eq)

lemma demo_client_slots:
  "slot_contacts demo_client = None" "slot_custom_fields demo_client = None"
  "slot_custom_statuses demo_client = None" "slot_folders demo_client = None"
  "slot_workflows demo_client = None" "sent demo_client = []"
  by (simp_all add: demo_client_def init_def reinitialize_def)

text \<open>
  A populated, non-empty cache is served from memory: the second access issues no request and
  returns the same dictionary.
\<close>

lemma contacts_served_again:
  "fst (contacts net s) = Inr d \<Longrightarrow> d \<noteq> [] \<Longrightarrow>
   contacts net' (snd (contacts net s)) = (Inr d, snd (contacts net s))"
  by (rule contacts_hit)
     (auto simp: contacts_def cached_Some cached_None query_contacts_all_def get_eq
           split: option.splits sum.splits)

lemma custom_fields_served_again:
  "fst (custom_fields net s) = Inr d \<Longrightarrow> d \<noteq> [] \<Longrightarrow>
   custom_fields net' (snd (custom_fields net s)) = (Inr d, snd (custom_fields net s))"
  by (rule custom_fields_hit)
     (auto simp: custom_fields_def cached_Some cached_None query_custom_fields_all_def get_eq
           split: option.splits sum.splits)

lemma folders_served_again:
  "fst (folders net s) = Inr d \<Longrightarrow> d \<noteq> [] \<Longrightarrow>
   folders net' (snd (folders net s)) = (Inr d, snd (folders net s))"
  by (rule folders_hit)
     (auto simp: folders_def cached_Some cached_None query_folders_all_def get_eq
           split: option.splits sum.splits)

lemma workflows_served_again:
  "fst (workflows net s) = Inr d \<Longrightarrow> d \<noteq> [] \<Longrightarrow>
   workflows net' (snd (workflows net s)) = (Inr d, snd (workflows net s))"
  by (rule workflows_hit)
     (auto simp: workflows_def cached_Some cached_None query_workflows_def get_eq
           split: option.splits sum.splits)

lemma custom_statuses_served_again:
  "fst (custom_statuses net s) = Inr d \<Longrightarrow> d \<noteq> [] \<Longrightarrow>
   custom_statuses net' (snd (custom_statuses net s)) = (Inr d, snd (custom_statuses net s))"
  by (rule custom_statuses_hit)
     (auto simp: custom_statuses_def cached_Some cached_None split: option.splits sum.splits prod.splits)

lemma workflows_demo:
  "workflows workflow_service (demo_client\<lparr>slot_custom_statuses := Some []\<rparr>) =
     (Inr workflow_dict,
      demo_client\<lparr>slot_custom_statuses := Some [],
                  sent := [mk_request demo_client ''workflows'' None],
                  slot_workflows := Some workflow_dict\<rparr>)"
  by (simp add: workflows_def query_workflows_def get_eq demo_client_slots workflow_service_def
      convert_list_to_dict_def workflow_records_def workflow_dict_def)

lemma workflow_dict_ok: "list_all workflow_ok (dict_values workflow_dict)"
  by (simp add: workflow_dict_def workflow_records_def dict_values_def workflow_ok_def)

lemma flatten_demo: "flatten_workflows (dict_values workflow_dict) [] = (None, status_dict)"
  by (simp add: workflow_dict_def workflow_records_def dict_values_def status_dict_def)

lemma custom_statuses_demo:
  "custom_statuses workflow_service demo_client =
     (Inr status_dict,
      demo_client\<lparr>slot_custom_statuses := Some [],
                  sent := [mk_request demo_client ''workflows'' None],
                  slot_workflows := Some workflow_dict,
                  slot_custom_statuses := Some status_dict\<rparr>)"
  by (simp add: custom_statuses_def demo_client_slots workflows_demo flatten_demo)

lemma custom_folder_values:
  "extract_project_value_from_folder ''status'' (custom_folder i) = JStr ''Custom''"
  "extract_project_value_from_folder ''customStatusId'' (custom_folder i) = i"
  by (simp_all add: custom_folder_def extract_project_value_from_folder_def)

lemma extract_plain:
  "\<not> (extract_project_value_from_folder ''status'' folder = JStr ''Custom''
      \<and> truthy (extract_project_value_from_folder ''customStatusId'' folder)) \<Longrightarrow>
   extract_project_status net s folder =
     (Inr (extract_project_value_from_folder ''status'' folder), s)"
  by (auto simp: extract_project_status_def Let_def py_str_Custom)

lemma extract_custom:
  "extract_project_value_from_folder ''status'' folder = JStr ''Custom'' \<Longrightarrow>
   truthy (extract_project_value_from_folder ''customStatusId'' folder) \<Longrightarrow>
   custom_statuses net s = (Inr d, s1) \<Longrightarrow>
   extract_project_status net s folder =
     (case dict_getitem d (extract_project_value_from_folder ''customStatusId'' folder) of
        Inl e \<Rightarrow> (Inl e, s1)
      | Inr r \<Rightarrow> (case getitem_str r ''name'' of Inl e \<Rightarrow> (Inl e, s1) | Inr n \<Rightarrow> (Inr n, s1)))"
  by (simp add: extract_project_status_def Let_def)

lemma client_with_statuses_hit:
  "d \<noteq> [] \<Longrightarrow> custom_statuses net (client_with_statuses d) = (Inr d, client_with_statuses d)"
  by (rule custom_statuses_hit) (simp add: client_with_statuses_def cached_Some)

lemma key_of_error: "key_of x = Inl e \<Longrightarrow> e = TypeError"
  by (cases x) auto

section \<open>Cache invalidation\<close>

text \<open>
  Claim C2. \<^verbatim>\<open>reinitialize\<close> sets all five cache attributes to \<^verbatim>\<open>None\<close>, and the next access to
  each of the five properties after it issues a fresh request: one GET to the property's endpoint
  (for the custom statuses, the GET of the workflows), whatever the caches held before.
\<close>

theorem reinitialize_refetches:
  "slot_contacts (reinitialize s) = None
   \<and> slot_custom_fields (reinitialize s) = None
   \<and> slot_custom_statuses (reinitialize s) = None
   \<and> slot_folders (reinitialize s) = None
   \<and> slot_workflows (reinitialize s) = None
   \<and> sent (snd (contacts net (reinitialize s))) = sent s @ [mk_request s ''contacts'' None]
   \<and> sent (snd (custom_fields net (reinitialize s))) = sent s @ [mk_request s ''customfields'' None]
   \<and> sent (snd (folders net (reinitialize s))) = sent s @ [mk_request s ''folders'' None]
   \<and> sent (snd (workflows net (reinitialize s))) = sent s @ [mk_request s ''workflows'' None]
   \<and> sent (snd (custom_statuses net (reinitialize s))) = sent s @ [mk_request s ''workflows'' None]"
proof -
  have slots: "slot_contacts (reinitialize s) = None" "slot_custom_fields (reinitialize s) = None"
    "slot_custom_statuses (reinitialize s) = None" "slot_folders (reinitialize s) = None"
    "slot_workflows (reinitialize s) = None" and snt: "sent (reinitialize s) = sent s"
    by (simp_all add: reinitialize_def)
  have c: "sent (snd (contacts net (reinitialize s))) = sent s @ [mk_request s ''contacts'' None]"
    using contacts_miss_sent [of "reinitialize s" net] by (simp add: slots snt)
  have f: "sent (snd (custom_fields net (reinitialize s))) = sent s @ [mk_request s ''customfields'' None]"
    using custom_fields_miss_sent [of "reinitialize s" net] by (simp add: slots snt)
  have fo: "sent (snd (folders net (reinitialize s))) = sent s @ [mk_request s ''folders'' None]"
    using folders_miss_sent [of "reinitialize s" net] by (simp add: slots snt)
  have w: "sent (snd (workflows net (reinitialize s))) = sent s @ [mk_request s ''workflows'' None]"
    using workflows_miss_sent [of "reinitialize s" net] by (simp add: slots snt)
  have cs: "sent (snd (custom_statuses net (reinitialize s))) = sent s @ [mk_request s ''workflows'' None]"
    using custom_statuses_miss_sent [of "reinitialize s" net]
      workflows_miss_sent [of "(reinitialize s)\<lparr>slot_custom_statuses := Some []\<rparr>" net]
    by (simp add: slots snt)
  from slots c f fo w cs show ?thesis by simp
qed


section \<open>Id lookup\<close>

text \<open>
  Claim C7. For every list of legacy ids and every id type, \<^verbatim>\<open>convert_to_id4s\<close> issues exactly one
  GET, to the path \<^verbatim>\<open>ids/\<close>, with the query parameters \<^verbatim>\<open>type\<close>, the value of the id type in the
  fixed table, and \<^verbatim>\<open>ids\<close>, the \<^verbatim>\<open>str\<close> rendering of the list. For the list \<^verbatim>\<open>["12345"]\<close> and
  the type \<^verbatim>\<open>FOLDER\<close> the parameters are \<^verbatim>\<open>ApiV2Folder\<close> and \<^verbatim>\<open>['12345']\<close>.
\<close>

theorem convert_to_id4s_request:
  "convert_to_id4s net s id2s idType =
     get net s ''ids/''
       (Some [(''type'', id_value idType), (''ids'', py_str (JArr (map JStr id2s)))])
   \<and> sent (snd (convert_to_id4s net s id2s idType)) =
       sent s @ [mk_request s ''ids/''
         (Some [(''type'', id_value idType), (''ids'', py_str (JArr (map JStr id2s)))])]
   \<and> map id_value [ACCOUNT, USER, FOLDER, TASK, COMMENT, ATTACHMENT, TIMELOG] =
       [''ApiV2Account'', ''ApiV2User'', ''ApiV2Folder'', ''ApiV2Task'', ''ApiV2Comment'',
        ''ApiV2Attachment'', ''ApiV2Timelog'']
   \<and> params (last (sent (snd (convert_to_id4s net s [''12345''] FOLDER)))) =
       Some [(''type'', ''ApiV2Folder''), (''ids'', ''['12345']'')]"
  by (simp add: convert_to_id4s_def get_eq mk_request_def repr_str_def repr_char_def Let_def)

section \<open>Timelog queries\<close>

text \<open>
  Claim C8. Every timelog query sends exactly one request, the GET to
  \<^verbatim>\<open><base_url><location>/timelogs\<close> with the client's headers, and returns what the service
  answers to it. The parameters of that request always hold \<^verbatim>\<open>descendants = true\<close>. With one
  tracked date they also hold \<^verbatim>\<open>trackedDate\<close>, the rendering of \<^verbatim>\<open>{'equal': date}\<close>; with two, the
  rendering of \<^verbatim>\<open>{'start': first, 'end': second}\<close>. The query of \<^verbatim>\<open>tasks/T1\<close> for the dates
  2024-01-01 and 2024-01-31 sends the GET to \<^verbatim>\<open>tasks/T1/timelogs\<close> with both dates in the filter.
\<close>

theorem query_timelogs_params:
  "sent (snd (query_timelogs net s location tracked_date)) =
     sent s @ [\<lparr>url = base_url s @ location @ ''/timelogs'',
                req_headers = headers s,
                params = Some (timelog_params tracked_date),
                verify = ssl_verify s\<rparr>]
   \<and> fst (query_timelogs net s location tracked_date) =
       net (sent s) \<lparr>url = base_url s @ location @ ''/timelogs'',
                      req_headers = headers s,
                      params = Some (timelog_params tracked_date),
                      verify = ssl_verify s\<rparr>
   \<and> (case params (last (sent (snd (query_timelogs net s location tracked_date)))) of
         None \<Rightarrow> None
       | Some ps \<Rightarrow> map_of ps ''descendants'') = Some ''true''
   \<and> params (last (sent (snd (query_timelogs net s location [d])))) =
       Some [(''descendants'', ''true''),
             (''trackedDate'', ''{'equal': '' @ repr_str d @ ''}'')]
   \<and> params (last (sent (snd (query_timelogs net s location [a, b])))) =
       Some [(''descendants'', ''true''),
             (''trackedDate'', ''{'start': '' @ repr_str a @ '', 'end': '' @ repr_str b @ ''}'')]
   \<and> sent (snd (query_timelogs net s ''tasks/T1'' [''2024-01-01'', ''2024-01-31''])) =
       sent s @ [\<lparr>url = base_url s @ ''tasks/T1/timelogs'',
                  req_headers = headers s,
                  params = Some [(''descendants'', ''true''),
                                 (''trackedDate'',
                                  ''{'start': '2024-01-01', 'end': '2024-01-31'}'')],
                  verify = ssl_verify s\<rparr>]"
proof -
  have q: "query_timelogs net s l td =
      (net (sent s) \<lparr>url = base_url s @ l @ ''/timelogs'', req_headers = headers s,
                      params = Some (timelog_params td), verify = ssl_verify s\<rparr>,
       s\<lparr>sent := sent s @ [\<lparr>url = base_url s @ l @ ''/timelogs'', req_headers = headers s,
                      params = Some (timelog_params td), verify = ssl_verify s\<rparr>]\<rparr>)" for l td
    by (simp add: query_timelogs_def get_eq mk_request_def)
  have d: "map_of (timelog_params tracked_date) ''descendants'' = Some ''true''"
    by (simp add: timelog_params_def Let_def)
  have k: "repr_str ''equal'' = CHR 0x27 # ''equal'' @ [CHR 0x27]"
    "repr_str ''start'' = CHR 0x27 # ''start'' @ [CHR 0x27]"
    "repr_str ''end'' = CHR 0x27 # ''end'' @ [CHR 0x27]"
    by (simp_all add: repr_str_def repr_char_def Let_def)
  have one: "timelog_params [d] =
       [(''descendants'', ''true''), (''trackedDate'', ''{'equal': '' @ repr_str d @ ''}'')]"
    by (simp add: timelog_params_def Let_def k)
  have two: "timelog_params [a, b] =
       [(''descendants'', ''true''),
        (''trackedDate'', ''{'start': '' @ repr_str a @ '', 'end': '' @ repr_str b @ ''}'')]"
    by (simp add: timelog_params_def Let_def k)
  have ex: "timelog_params [''2024-01-01'', ''2024-01-31''] =
       [(''descendants'', ''true''),
        (''trackedDate'', ''{'start': '2024-01-01', 'end': '2024-01-31'}'')]"
    by (simp add: timelog_params_def Let_def repr_str_def repr_char_def)
  show ?thesis
    by (intro conjI, simp add: q, simp add: q, simp add: q d, simp add: q one,
        simp add: q two, simp add: q ex)
qed

text \<open>
  Claim C10. With three or more tracked dates the query still sends its one request, the GET to
  \<^verbatim>\<open><base_url><location>/timelogs\<close>, and the only parameter of that request is
  \<^verbatim>\<open>descendants = true\<close>: the dates are dropped. The query itself raises nothing: its result is
  the service's answer to that request.
\<close>

theorem query_timelogs_drops_long_filter:
  "3 \<le> length tracked_date \<Longrightarrow>
   sent (snd (query_timelogs net s location tracked_date)) =
     sent s @ [\<lparr>url = base_url s @ location @ ''/timelogs'',
                req_headers = headers s,
                params = Some [(''descendants'', ''true'')],
                verify = ssl_verify s\<rparr>]
   \<and> fst (query_timelogs net s location tracked_date) =
       net (sent s) \<lparr>url = base_url s @ location @ ''/timelogs'',
                      req_headers = headers s,
                      params = Some [(''descendants'', ''true'')],
                      verify = ssl_verify s\<rparr>"
proof -
  assume "3 \<le> length tracked_date"
  then have "timelog_params tracked_date = [(''descendants'', ''true'')]"
    by (auto simp: timelog_params_def Let_def)
  then show ?thesis by (simp add: query_timelogs_def get_eq mk_request_def)
qed

theorem query_timelogs_drops_long_filter_witness:
  "3 \<le> length [''2024-01-01'', ''2024-01-15'', ''2024-01-31'']
   \<and> sent (snd (query_timelogs empty_service demo_client ''tasks/T1''
         [''2024-01-01'', ''2024-01-15'', ''2024-01-31''])) =
       [\<lparr>url = ''https://www.wrike.com/api/v4/tasks/T1/timelogs'',
         req_headers = [(''Accept'', ''application/json''), (''Authorization'', ''Bearer token'')],
         params = Some [(''descendants'', ''true'')],
         verify = True\<rparr>]
   \<and> fst (query_timelogs empty_service demo_client ''tasks/T1''
         [''2024-01-01'', ''2024-01-15'', ''2024-01-31'']) = Inr (JObj [(''data'', JArr [])])"
  using query_timelogs_drops_long_filter
    [of "[''2024-01-01'', ''2024-01-15'', ''2024-01-31'']" empty_service demo_client "''tasks/T1''"]
  by (simp add: demo_client_def init_def reinitialize_def empty_service_def)

section \<open>Absent project values\<close>

text \<open>
  Claim C5. For every folder in which the path \<^verbatim>\<open>project.<key>\<close> is missing at some level,
  \<^verbatim>\<open>extract_project_value_from_folder\<close> returns \<^verbatim>\<open>None\<close> and raises nothing. When the key is
  \<^verbatim>\<open>status\<close>, \<^verbatim>\<open>extract_project_status\<close> returns \<^verbatim>\<open>None\<close> without an error and without a
  request; in particular on the empty folder.
\<close>

theorem extract_absent:
  "(project_path_missing key folder \<longrightarrow> extract_project_value_from_folder key folder = JNull)
   \<and> (project_path_missing ''status'' folder \<longrightarrow>
        extract_project_status net s folder = (Inr JNull, s))
   \<and> extract_project_status net s (JObj []) = (Inr JNull, s)"
proof -
  have a: "project_path_missing ''status'' f \<Longrightarrow> extract_project_status net s f = (Inr JNull, s)"
    for f
    by (simp add: extract_project_status_def extract_missing Let_def)
  have "project_path_missing ''status'' (JObj [])" by (simp add: project_path_missing_def)
  from a [OF this] a extract_missing show ?thesis by blast
qed

theorem extract_absent_witness:
  "project_path_missing ''status'' (JObj [(''project'', JObj [(''title'', JStr ''x'')])])
   \<and> project_path_missing ''status'' (JObj [(''project'', JStr ''status'')])
   \<and> project_path_missing ''status'' (JObj [(''id'', JStr ''F1'')])
   \<and> extract_project_value_from_folder ''status''
        (JObj [(''project'', JObj [(''title'', JStr ''x'')])]) = JNull
   \<and> extract_project_status empty_service demo_client (JObj [(''project'', JStr ''status'')])
        = (Inr JNull, demo_client)
   \<and> extract_project_status empty_service demo_client (JObj [(''id'', JStr ''F1'')])
        = (Inr JNull, demo_client)"
  using extract_absent [of "''status''" "JObj [(''project'', JObj [(''title'', JStr ''x'')])]"]
    extract_absent [of "''status''" "JObj [(''project'', JStr ''status'')]" empty_service demo_client]
    extract_absent [of "''status''" "JObj [(''id'', JStr ''F1'')]" empty_service demo_client]
  by (simp add: project_path_missing_def)


section \<open>Failed fetches\<close>

text \<open>
  Claim C9. For the contacts, custom fields, folders and workflows properties: when the cache
  attribute is unpopulated and the request raises, the property raises the same exception, no
  cache attribute changes (only the request is recorded), and the next access issues the request
  again.
\<close>

theorem fetch_failure_keeps_slot:
  "(cached (slot_contacts s) = None \<longrightarrow>
      net (sent s) (mk_request s ''contacts'' None) = Inl e \<longrightarrow>
      contacts net s = (Inl e, s\<lparr>sent := sent s @ [mk_request s ''contacts'' None]\<rparr>)
      \<and> sent (snd (contacts net' (snd (contacts net s)))) =
          sent s @ [mk_request s ''contacts'' None, mk_request s ''contacts'' None])
   \<and> (cached (slot_custom_fields s) = None \<longrightarrow>
      net (sent s) (mk_request s ''customfields'' None) = Inl e \<longrightarrow>
      custom_fields net s = (Inl e, s\<lparr>sent := sent s @ [mk_request s ''customfields'' None]\<rparr>)
      \<and> sent (snd (custom_fields net' (snd (custom_fields net s)))) =
          sent s @ [mk_request s ''customfields'' None, mk_request s ''customfields'' None])
   \<and> (cached (slot_folders s) = None \<longrightarrow>
      net (sent s) (mk_request s ''folders'' None) = Inl e \<longrightarrow>
      folders net s = (Inl e, s\<lparr>sent := sent s @ [mk_request s ''folders'' None]\<rparr>)
      \<and> sent (snd (folders net' (snd (folders net s)))) =
          sent s @ [mk_request s ''folders'' None, mk_request s ''folders'' None])
   \<and> (cached (slot_workflows s) = None \<longrightarrow>
      net (sent s) (mk_request s ''workflows'' None) = Inl e \<longrightarrow>
      workflows net s = (Inl e, s\<lparr>sent := sent s @ [mk_request s ''workflows'' None]\<rparr>)
      \<and> sent (snd (workflows net' (snd (workflows net s)))) =
          sent s @ [mk_request s ''workflows'' None, mk_request s ''workflows'' None])"
proof -
  have c: "sent (snd (contacts net' (snd (contacts net s)))) =
          sent s @ [mk_request s ''contacts'' None, mk_request s ''contacts'' None]"
    if "cached (slot_contacts s) = None" "net (sent s) (mk_request s ''contacts'' None) = Inl e"
    using that contacts_miss_sent [of "s\<lparr>sent := sent s @ [mk_request s ''contacts'' None]\<rparr>" net']
    by (simp add: contacts_fail)
  have f: "sent (snd (custom_fields net' (snd (custom_fields net s)))) =
          sent s @ [mk_request s ''customfields'' None, mk_request s ''customfields'' None]"
    if "cached (slot_custom_fields s) = None"
      "net (sent s) (mk_request s ''customfields'' None) = Inl e"
    using that
      custom_fields_miss_sent [of "s\<lparr>sent := sent s @ [mk_request s ''customfields'' None]\<rparr>" net']
    by (simp add: custom_fields_fail)
  have fo: "sent (snd (folders net' (snd (folders net s)))) =
          sent s @ [mk_request s ''folders'' None, mk_request s ''folders'' None]"
    if "cached (slot_folders s) = None" "net (sent s) (mk_request s ''folders'' None) = Inl e"
    using that folders_miss_sent [of "s\<lparr>sent := sent s @ [mk_request s ''folders'' None]\<rparr>" net']
    by (simp add: folders_fail)
  have w: "sent (snd (workflows net' (snd (workflows net s)))) =
          sent s @ [mk_request s ''workflows'' None, mk_request s ''workflows'' None]"
    if "cached (slot_workflows s) = None" "net (sent s) (mk_request s ''workflows'' None) = Inl e"
    using that workflows_miss_sent [of "s\<lparr>sent := sent s @ [mk_request s ''workflows'' None]\<rparr>" net']
    by (simp add: workflows_fail)
  from c f fo w contacts_fail [of s net e] custom_fields_fail [of s net e]
    folders_fail [of s net e] workflows_fail [of s net e]
  show ?thesis by blast
qed

theorem fetch_failure_keeps_slot_witness:
  "contacts failing_service demo_client =
     (Inl (TransportError ''connection refused''),
      demo_client\<lparr>sent := [mk_request demo_client ''contacts'' None]\<rparr>)
   \<and> sent (snd (contacts empty_service (snd (contacts failing_service demo_client)))) =
       [mk_request demo_client ''contacts'' None, mk_request demo_client ''contacts'' None]
   \<and> custom_fields failing_service demo_client =
     (Inl (TransportError ''connection refused''),
      demo_client\<lparr>sent := [mk_request demo_client ''customfields'' None]\<rparr>)
   \<and> folders failing_service demo_client =
     (Inl (TransportError ''connection refused''),
      demo_client\<lparr>sent := [mk_request demo_client ''folders'' None]\<rparr>)
   \<and> workflows failing_service demo_client =
     (Inl (TransportError ''connection refused''),
      demo_client\<lparr>sent := [mk_request demo_client ''workflows'' None]\<rparr>)"
  using fetch_failure_keeps_slot
    [of demo_client failing_service "TransportError ''connection refused''" empty_service]
  by (auto simp: demo_client_slots failing_service_def)


section \<open>The derived custom-status cache\<close>

text \<open>
  Claim C3. The custom statuses are derived, not fetched: an access issues no request of its own,
  the only request it can cause is the single GET of the workflows. On a miss, with the workflow
  dictionary at hand and every workflow carrying a list of custom statuses with ids, the result
  is the flattening of those lists into one dictionary keyed by custom-status id (a later status
  overrides an earlier one with the same id), and it is stored in the cache attribute.
\<close>

theorem custom_statuses_derived:
  "(sent (snd (custom_statuses net s)) = sent s
      \<or> sent (snd (custom_statuses net s)) = sent s @ [mk_request s ''workflows'' None])
   \<and> (cached (slot_custom_statuses s) = None \<longrightarrow>
      workflows net (s\<lparr>slot_custom_statuses := Some []\<rparr>) = (Inr wd, s1) \<longrightarrow>
      list_all workflow_ok (dict_values wd) \<longrightarrow>
      (\<exists>d. custom_statuses net s = (Inr d, s1\<lparr>slot_custom_statuses := Some d\<rparr>)
           \<and> map_of d = map_of (rev (status_entries (dict_values wd)))
           \<and> distinct (map fst d)))"
proof -
  have "\<exists>d. custom_statuses net s = (Inr d, s1\<lparr>slot_custom_statuses := Some d\<rparr>)
           \<and> map_of d = map_of (rev (status_entries (dict_values wd)))
           \<and> distinct (map fst d)"
    if miss: "cached (slot_custom_statuses s) = None"
      and w: "workflows net (s\<lparr>slot_custom_statuses := Some []\<rparr>) = (Inr wd, s1)"
      and ok: "list_all workflow_ok (dict_values wd)"
  proof -
    from flatten_workflows_ok [OF ok, of "[]"] obtain d where
      d: "flatten_workflows (dict_values wd) [] = (None, d)"
         "map_of d = map_of (rev (status_entries (dict_values wd)))"
         "distinct (map fst d)"
      by auto
    from miss w d(1) have "custom_statuses net s = (Inr d, s1\<lparr>slot_custom_statuses := Some d\<rparr>)"
      by (simp add: custom_statuses_def)
    with d show ?thesis by blast
  qed
  with custom_statuses_sent [of net s] show ?thesis by blast
qed

theorem custom_statuses_derived_witness:
  "cached (slot_custom_statuses demo_client) = None
   \<and> list_all workflow_ok (dict_values workflow_dict)
   \<and> fst (custom_statuses workflow_service demo_client) = Inr status_dict
   \<and> sent (snd (custom_statuses workflow_service demo_client)) =
       [mk_request demo_client ''workflows'' None]
   \<and> map_of status_dict = map_of (rev (status_entries (dict_values workflow_dict)))
   \<and> map_of status_dict (KStr ''CS2'') =
       Some (JObj [(''id'', JStr ''CS2''), (''name'', JStr ''Completed'')])"
proof -
  have a: "cached (slot_custom_statuses demo_client) = None"
    by (simp add: demo_client_slots)
  from custom_statuses_derived [of workflow_service demo_client workflow_dict]
    a workflows_demo workflow_dict_ok
  obtain d where d: "custom_statuses workflow_service demo_client =
      (Inr d, demo_client\<lparr>slot_custom_statuses := Some [],
                  sent := [mk_request demo_client ''workflows'' None],
                  slot_workflows := Some workflow_dict,
                  slot_custom_statuses := Some d\<rparr>)"
    and m: "map_of d = map_of (rev (status_entries (dict_values workflow_dict)))"
    by blast
  from d have e: "d = status_dict" by (simp add: custom_statuses_demo)
  from m e have m': "map_of status_dict = map_of (rev (status_entries (dict_values workflow_dict)))"
    by simp
  have l: "map_of status_dict (KStr ''CS2'') =
       Some (JObj [(''id'', JStr ''CS2''), (''name'', JStr ''Completed'')])"
    by (simp add: status_dict_def)
  have r: "fst (custom_statuses workflow_service demo_client) = Inr status_dict"
    by (simp add: custom_statuses_demo)
  have n: "sent (snd (custom_statuses workflow_service demo_client)) =
       [mk_request demo_client ''workflows'' None]"
    by (simp add: custom_statuses_demo)
  show ?thesis
    by (intro conjI, fact a, fact workflow_dict_ok, fact r, fact n, fact m', fact l)
qed

section \<open>Repeated access to an empty cache\<close>

text \<open>
  Claim C1 says that a second access without a reset issues no further request, also when the
  first population produced an empty dictionary. The properties test the attribute with
  \<^verbatim>\<open>not\<close>, and the empty dictionary is falsy: against a service that answers with an empty list,
  the second access of each of the five properties sends the request a second time.
\<close>

theorem empty_cache_is_refetched:
  "fst (contacts empty_service demo_client) = Inr []
   \<and> sent (snd (contacts empty_service (snd (contacts empty_service demo_client)))) =
       [mk_request demo_client ''contacts'' None, mk_request demo_client ''contacts'' None]
   \<and> fst (custom_fields empty_service demo_client) = Inr []
   \<and> sent (snd (custom_fields empty_service (snd (custom_fields empty_service demo_client)))) =
       [mk_request demo_client ''customfields'' None, mk_request demo_client ''customfields'' None]
   \<and> fst (folders empty_service demo_client) = Inr []
   \<and> sent (snd (folders empty_service (snd (folders empty_service demo_client)))) =
       [mk_request demo_client ''folders'' None, mk_request demo_client ''folders'' None]
   \<and> fst (workflows empty_service demo_client) = Inr []
   \<and> sent (snd (workflows empty_service (snd (workflows empty_service demo_client)))) =
       [mk_request demo_client ''workflows'' None, mk_request demo_client ''workflows'' None]
   \<and> fst (custom_statuses empty_service demo_client) = Inr []
   \<and> sent (snd (custom_statuses empty_service (snd (custom_statuses empty_service demo_client)))) =
       [mk_request demo_client ''workflows'' None, mk_request demo_client ''workflows'' None]"
proof -
  have c: "contacts empty_service demo_client =
      (Inr [], demo_client\<lparr>sent := [mk_request demo_client ''contacts'' None],
                           slot_contacts := Some []\<rparr>)"
    by (simp add: contacts_def query_contacts_all_def get_eq demo_client_slots empty_service_def
        convert_list_to_dict_def)
  have f: "custom_fields empty_service demo_client =
      (Inr [], demo_client\<lparr>sent := [mk_request demo_client ''customfields'' None],
                           slot_custom_fields := Some []\<rparr>)"
    by (simp add: custom_fields_def query_custom_fields_all_def get_eq demo_client_slots
        empty_service_def convert_list_to_dict_def)
  have fo: "folders empty_service demo_client =
      (Inr [], demo_client\<lparr>sent := [mk_request demo_client ''folders'' None],
                           slot_folders := Some []\<rparr>)"
    by (simp add: folders_def query_folders_all_def get_eq demo_client_slots empty_service_def
        convert_list_to_dict_def)
  have w: "workflows empty_service demo_client =
      (Inr [], demo_client\<lparr>sent := [mk_request demo_client ''workflows'' None],
                           slot_workflows := Some []\<rparr>)"
    by (simp add: workflows_def query_workflows_def get_eq demo_client_slots empty_service_def
        convert_list_to_dict_def)
  have w0: "workflows empty_service (demo_client\<lparr>slot_custom_statuses := Some []\<rparr>) =
      (Inr [], demo_client\<lparr>slot_custom_statuses := Some [],
                           sent := [mk_request demo_client ''workflows'' None],
                           slot_workflows := Some []\<rparr>)"
    by (simp add: workflows_def query_workflows_def get_eq demo_client_slots empty_service_def
        convert_list_to_dict_def)
  have cs: "custom_statuses empty_service demo_client =
      (Inr [], demo_client\<lparr>slot_custom_statuses := Some [],
                           sent := [mk_request demo_client ''workflows'' None],
                           slot_workflows := Some [],
                           slot_custom_statuses := Some []\<rparr>)"
    by (simp add: custom_statuses_def demo_client_slots w0 dict_values_def)
  have c2: "sent (snd (contacts empty_service (snd (contacts empty_service demo_client)))) =
       [mk_request demo_client ''contacts'' None, mk_request demo_client ''contacts'' None]"
    unfolding c by (simp add: contacts_miss_sent demo_client_slots)
  have f2: "sent (snd (custom_fields empty_service (snd (custom_fields empty_service demo_client)))) =
       [mk_request demo_client ''customfields'' None, mk_request demo_client ''customfields'' None]"
    unfolding f by (simp add: custom_fields_miss_sent demo_client_slots)
  have fo2: "sent (snd (folders empty_service (snd (folders empty_service demo_client)))) =
       [mk_request demo_client ''folders'' None, mk_request demo_client ''folders'' None]"
    unfolding fo by (simp add: folders_miss_sent demo_client_slots)
  have w2: "sent (snd (workflows empty_service (snd (workflows empty_service demo_client)))) =
       [mk_request demo_client ''workflows'' None, mk_request demo_client ''workflows'' None]"
    unfolding w by (simp add: workflows_miss_sent demo_client_slots)
  have cs2: "sent (snd (custom_statuses empty_service (snd (custom_statuses empty_service demo_client)))) =
       [mk_request demo_client ''workflows'' None, mk_request demo_client ''workflows'' None]"
    unfolding cs by (simp add: custom_statuses_miss_sent workflows_miss_sent demo_client_slots)
  show ?thesis
    by (intro conjI, simp add: c, fact c2, simp add: f, fact f2, simp add: fo, fact fo2,
        simp add: w, fact w2, simp add: cs, fact cs2)
qed


section \<open>Project status\<close>

text \<open>
  Claim C4, as the code has it. \<^verbatim>\<open>extract_project_status\<close> returns the value of
  \<^verbatim>\<open>folder.project.status\<close> and sends nothing, unless that status is the string \<^verbatim>\<open>Custom\<close> and
  \<^verbatim>\<open>folder.project.customStatusId\<close> is truthy; then, when the custom-status property yields a
  dictionary that holds a record with a \<^verbatim>\<open>name\<close> under that id, it returns that name. The
  second half of the witness is the scenario of the specification: status \<^verbatim>\<open>Custom\<close>, id
  \<^verbatim>\<open>CS1\<close>, cache populated on the way, result \<^verbatim>\<open>Blocked\<close>.
\<close>

theorem extract_project_status_resolves:
  "(\<not> (extract_project_value_from_folder ''status'' folder = JStr ''Custom''
        \<and> truthy (extract_project_value_from_folder ''customStatusId'' folder)) \<longrightarrow>
      extract_project_status net s folder =
        (Inr (extract_project_value_from_folder ''status'' folder), s))
   \<and> (extract_project_value_from_folder ''status'' folder = JStr ''Custom'' \<longrightarrow>
      truthy (extract_project_value_from_folder ''customStatusId'' folder) \<longrightarrow>
      custom_statuses net s = (Inr d, s1) \<longrightarrow>
      dict_getitem d (extract_project_value_from_folder ''customStatusId'' folder) = Inr r \<longrightarrow>
      getitem_str r ''name'' = Inr n \<longrightarrow>
      extract_project_status net s folder = (Inr n, s1))"
proof -
  have "extract_project_status net s folder = (Inr n, s1)"
    if "extract_project_value_from_folder ''status'' folder = JStr ''Custom''"
      "truthy (extract_project_value_from_folder ''customStatusId'' folder)"
      "custom_statuses net s = (Inr d, s1)"
      "dict_getitem d (extract_project_value_from_folder ''customStatusId'' folder) = Inr r"
      "getitem_str r ''name'' = Inr n"
    using extract_custom [OF that(1) that(2) that(3)] that(4) that(5) by simp
  with extract_plain [of folder net s] show ?thesis by blast
qed

theorem extract_project_status_resolves_witness:
  "extract_project_status workflow_service demo_client active_folder =
     (Inr (JStr ''Active''), demo_client)
   \<and> fst (extract_project_status workflow_service demo_client (custom_folder (JStr ''CS1''))) =
       Inr (JStr ''Blocked'')
   \<and> sent (snd (extract_project_status workflow_service demo_client
                   (custom_folder (JStr ''CS1'')))) =
       [mk_request demo_client ''workflows'' None]"
proof -
  have a: "extract_project_value_from_folder ''status'' active_folder = JStr ''Active''"
    by (simp add: active_folder_def extract_project_value_from_folder_def)
  have l: "dict_getitem status_dict (JStr ''CS1'') =
      Inr (JObj [(''id'', JStr ''CS1''), (''name'', JStr ''Blocked'')])"
    by (simp add: dict_getitem_def status_dict_def)
  have n: "getitem_str (JObj [(''id'', JStr ''CS1''), (''name'', JStr ''Blocked'')]) ''name'' =
      Inr (JStr ''Blocked'')"
    by simp
  have 1: "extract_project_status workflow_service demo_client active_folder =
     (Inr (JStr ''Active''), demo_client)"
    using extract_project_status_resolves [of active_folder workflow_service demo_client] a
    by simp
  have 2: "extract_project_status workflow_service demo_client (custom_folder (JStr ''CS1'')) =
     (Inr (JStr ''Blocked''),
      demo_client\<lparr>slot_custom_statuses := Some [],
                  sent := [mk_request demo_client ''workflows'' None],
                  slot_workflows := Some workflow_dict,
                  slot_custom_statuses := Some status_dict\<rparr>)"
    using extract_project_status_resolves
      [of "custom_folder (JStr ''CS1'')" workflow_service demo_client status_dict _
          "JObj [(''id'', JStr ''CS1''), (''name'', JStr ''Blocked'')]" "JStr ''Blocked''"]
      custom_statuses_demo l n
    by (simp add: custom_folder_values)
  show ?thesis by (intro conjI, fact 1, simp add: 2, simp add: 2)
qed

text \<open>
  The claim as stated asks for the lookup whenever the id is present. An id that is present but
  falsy is not looked up: with the empty string as id and a cache that holds a record named
  \<^verbatim>\<open>Blocked\<close> under the empty string, the result is \<^verbatim>\<open>Custom\<close>.
\<close>

theorem custom_with_empty_id_counterexample:
  "extract_project_value_from_folder ''status'' (custom_folder (JStr '''')) = JStr ''Custom''
   \<and> getitem_str (JObj [(''status'', JStr ''Custom''), (''customStatusId'', JStr '''')])
        ''customStatusId'' = Inr (JStr '''')
   \<and> custom_statuses empty_service (client_with_statuses blank_id_statuses) =
       (Inr blank_id_statuses, client_with_statuses blank_id_statuses)
   \<and> dict_getitem blank_id_statuses (JStr '''') =
       Inr (JObj [(''id'', JStr ''''), (''name'', JStr ''Blocked'')])
   \<and> extract_project_status empty_service (client_with_statuses blank_id_statuses)
        (custom_folder (JStr '''')) =
       (Inr (JStr ''Custom''), client_with_statuses blank_id_statuses)
   \<and> fst (extract_project_status empty_service (client_with_statuses blank_id_statuses)
        (custom_folder (JStr ''''))) \<noteq> Inr (JStr ''Blocked'')"
proof -
  have h: "custom_statuses empty_service (client_with_statuses blank_id_statuses) =
       (Inr blank_id_statuses, client_with_statuses blank_id_statuses)"
    by (rule client_with_statuses_hit) (simp add: blank_id_statuses_def)
  have e: "extract_project_status empty_service (client_with_statuses blank_id_statuses)
        (custom_folder (JStr '''')) =
       (Inr (JStr ''Custom''), client_with_statuses blank_id_statuses)"
    using extract_plain [of "custom_folder (JStr '''')"] by (simp add: custom_folder_values)
  show ?thesis
    by (intro conjI, simp add: custom_folder_values, simp, fact h,
        simp add: dict_getitem_def blank_id_statuses_def, fact e, simp add: e)
qed

text \<open>
  Claim C6, as the code has it. When the custom-status property yields a dictionary, the
  extractor raises \<^verbatim>\<open>KeyError\<close> exactly when the status is \<^verbatim>\<open>Custom\<close>, the id is truthy and
  hashable, and either the id is not a key of the dictionary or the record under it has no
  \<^verbatim>\<open>name\<close>. When the id is not a key, the result is the \<^verbatim>\<open>KeyError\<close> of that id: no fallback
  value is returned.
\<close>

theorem extract_project_status_KeyError:
  "custom_statuses net s = (Inr d, s1) \<Longrightarrow>
   raises_KeyError (fst (extract_project_status net s folder)) =
     (extract_project_value_from_folder ''status'' folder = JStr ''Custom''
      \<and> truthy (extract_project_value_from_folder ''customStatusId'' folder)
      \<and> (case key_of (extract_project_value_from_folder ''customStatusId'' folder) of
           Inl e \<Rightarrow> False
         | Inr k \<Rightarrow>
             (case map_of d k of
                None \<Rightarrow> True
              | Some r \<Rightarrow> raises_KeyError (getitem_str r ''name''))))
   \<and> (extract_project_value_from_folder ''status'' folder = JStr ''Custom'' \<longrightarrow>
      truthy (extract_project_value_from_folder ''customStatusId'' folder) \<longrightarrow>
      key_of (extract_project_value_from_folder ''customStatusId'' folder) = Inr k \<longrightarrow>
      map_of d k = None \<longrightarrow>
      extract_project_status net s folder = (Inl (KeyError k), s1))"
proof (cases "extract_project_value_from_folder ''status'' folder = JStr ''Custom''
      \<and> truthy (extract_project_value_from_folder ''customStatusId'' folder)")
  case False
  from extract_plain [OF False, of net s] False show ?thesis by auto
next
  case True
  assume cs: "custom_statuses net s = (Inr d, s1)"
  from True have st: "extract_project_value_from_folder ''status'' folder = JStr ''Custom''"
    and tr: "truthy (extract_project_value_from_folder ''customStatusId'' folder)"
    by simp_all
  note e = extract_custom [OF st tr cs]
  show ?thesis
    by (cases "key_of (extract_project_value_from_folder ''customStatusId'' folder)")
       (auto simp: e st tr dict_getitem_def dest: key_of_error split: option.splits sum.splits)
qed

theorem extract_project_status_KeyError_witness:
  "extract_project_status empty_service (client_with_statuses status_dict)
     (custom_folder (JStr ''CS9'')) =
     (Inl (KeyError (KStr ''CS9'')), client_with_statuses status_dict)
   \<and> raises_KeyError (fst (extract_project_status empty_service (client_with_statuses status_dict)
        (custom_folder (JStr ''CS9''))))
   \<and> \<not> raises_KeyError (fst (extract_project_status empty_service
        (client_with_statuses status_dict) (custom_folder (JStr ''CS1''))))"
proof -
  have h: "custom_statuses empty_service (client_with_statuses status_dict) =
       (Inr status_dict, client_with_statuses status_dict)"
    by (rule client_with_statuses_hit) (simp add: status_dict_def)
  note t9 = extract_project_status_KeyError [OF h, of "custom_folder (JStr ''CS9'')" "KStr ''CS9''"]
  note t1 = extract_project_status_KeyError [OF h, of "custom_folder (JStr ''CS1'')" "KStr ''CS1''"]
  have 1: "extract_project_status empty_service (client_with_statuses status_dict)
     (custom_folder (JStr ''CS9'')) =
     (Inl (KeyError (KStr ''CS9'')), client_with_statuses status_dict)"
    using t9 by (simp add: custom_folder_values status_dict_def)
  have 2: "\<not> raises_KeyError (fst (extract_project_status empty_service
        (client_with_statuses status_dict) (custom_folder (JStr ''CS1''))))"
    using t1 by (simp add: custom_folder_values status_dict_def)
  show ?thesis by (intro conjI, fact 1, simp add: 1, fact 2)
qed

text \<open>
  The claim as stated has \<^verbatim>\<open>KeyError\<close> exactly when the id is present and not a key of the cache.
  A record without \<^verbatim>\<open>name\<close> raises \<^verbatim>\<open>KeyError\<close> although its id is a key; and the id \<^verbatim>\<open>0\<close> is
  present and not a key, yet the result is \<^verbatim>\<open>Custom\<close> and nothing is raised.
\<close>

theorem KeyError_conditions_counterexample:
  "map_of nameless_statuses (KStr ''CS1'') = Some (JObj [(''id'', JStr ''CS1'')])
   \<and> custom_statuses empty_service (client_with_statuses nameless_statuses) =
       (Inr nameless_statuses, client_with_statuses nameless_statuses)
   \<and> extract_project_status empty_service (client_with_statuses nameless_statuses)
        (custom_folder (JStr ''CS1'')) =
       (Inl (KeyError (KStr ''name'')), client_with_statuses nameless_statuses)
   \<and> getitem_str (JObj [(''status'', JStr ''Custom''), (''customStatusId'', JInt 0)])
        ''customStatusId'' = Inr (JInt 0)
   \<and> map_of nameless_statuses (KInt 0) = None
   \<and> extract_project_status empty_service (client_with_statuses nameless_statuses)
        (custom_folder (JInt 0)) =
       (Inr (JStr ''Custom''), client_with_statuses nameless_statuses)"
proof -
  have h: "custom_statuses empty_service (client_with_statuses nameless_statuses) =
       (Inr nameless_statuses, client_with_statuses nameless_statuses)"
    by (rule client_with_statuses_hit) (simp add: nameless_statuses_def)
  have 1: "extract_project_status empty_service (client_with_statuses nameless_statuses)
        (custom_folder (JStr ''CS1'')) =
       (Inl (KeyError (KStr ''name'')), client_with_statuses nameless_statuses)"
    using extract_custom [OF _ _ h, of "custom_folder (JStr ''CS1'')"]
    by (simp add: custom_folder_values dict_getitem_def nameless_statuses_def)
  have 2: "extract_project_status empty_service (client_with_statuses nameless_statuses)
        (custom_folder (JInt 0)) =
       (Inr (JStr ''Custom''), client_with_statuses nameless_statuses)"
    using extract_plain [of "custom_folder (JInt 0)"] by (simp add: custom_folder_values)
  show ?thesis
    by (intro conjI, simp add: nameless_statuses_def, fact h, fact 1, simp,
        simp add: nameless_statuses_def, fact 2)
qed


end
